theory Spec2Isabelle
  imports Complex_Main "HOL-Library.AList" "HOL-Library.Sublist"
begin

section \<open>JavaScript idioms used by the services\<close>

text \<open>
  Sizes, byte counts, counters and clock readings are natural numbers; a priority after
  \<open>Math.round\<close> is an integer; a value that is still a fraction (the priority before
  rounding, a confidence, a probability) is a real number. An optional field is an
  \<open>option\<close>. The idiom \<open>x || d\<close> yields \<open>d\<close> when \<open>x\<close> is undefined or zero.
\<close>

definition or_default :: "'a::zero option \<Rightarrow> 'a \<Rightarrow> 'a" where
  "or_default x d = (case x of None \<Rightarrow> d | Some v \<Rightarrow> if v = 0 then d else v)"

text \<open>\<open>Math.round\<close>: the nearest integer, a tie going up.\<close>

definition Math_round :: "real \<Rightarrow> int" where
  "Math_round x = \<lfloor>x + 1 / 2\<rfloor>"

section \<open>The model catalogue (constants/modelConfigs.ts)\<close>

record ModelConfigItem =
  cfg_id :: string
  cfg_name :: string
  cfg_description :: string
  cfg_url :: string
  cfg_version :: string
  cfg_size :: nat
  srcLang :: string
  targetLang :: string
  lastUpdated :: string

definition en2tr_small :: ModelConfigItem where
  "en2tr_small = \<lparr> cfg_id = ''en2tr-small'', cfg_name = ''English to Turkish (Small)'',
     cfg_description = ''Compact TensorFlow.js model for English to Turkish translation'',
     cfg_url = ''https://tfhub.dev/tensorflow/tfjs-model/opus-mt-en-tr/1/model.json'',
     cfg_version = ''1.0.0'', cfg_size = 25, srcLang = ''en'', targetLang = ''tr'',
     lastUpdated = ''2024-06-01'' \<rparr>"

definition tr2en_small :: ModelConfigItem where
  "tr2en_small = \<lparr> cfg_id = ''tr2en-small'', cfg_name = ''Turkish to English (Small)'',
     cfg_description = ''Compact TensorFlow.js model for Turkish to English translation'',
     cfg_url = ''https://tfhub.dev/tensorflow/tfjs-model/opus-mt-tr-en/1/model.json'',
     cfg_version = ''1.0.0'', cfg_size = 25, srcLang = ''tr'', targetLang = ''en'',
     lastUpdated = ''2024-06-01'' \<rparr>"

definition opus_mt_en2tr_base :: ModelConfigItem where
  "opus_mt_en2tr_base = \<lparr> cfg_id = ''opus-mt-en2tr-base'', cfg_name = ''OPUS-MT English to Turkish'',
     cfg_description = ''Base OPUS-MT model for English to Turkish translation with improved accuracy'',
     cfg_url = ''https://tfhub.dev/tensorflow/tfjs-model/opus-mt-en-tr/1/model.json'',
     cfg_version = ''1.1.0'', cfg_size = 65, srcLang = ''en'', targetLang = ''tr'',
     lastUpdated = ''2024-06-05'' \<rparr>"

definition MODEL_CONFIGS :: "ModelConfigItem list" where
  "MODEL_CONFIGS = [en2tr_small, tr2en_small, opus_mt_en2tr_base]"

section \<open>Priority scoring (ModelManager.calculateModelPriority)\<close>

definition languagePopularity :: "string \<rightharpoonup> nat" where
  "languagePopularity = map_of
     [(''en'', 100), (''es'', 90), (''fr'', 80), (''de'', 70), (''it'', 60),
      (''pt'', 55), (''ru'', 50), (''ja'', 45), (''ko'', 40), (''zh'', 85),
      (''ar'', 35), (''hi'', 30), (''tr'', 25), (''nl'', 20), (''sv'', 15)]"

text \<open>
  The table is an object literal, so reading it with a key that is not its own finds the
  members that every object inherits from \<open>Object.prototype\<close>. Such a member is a
  function or an object: it is truthy, so \<open>|| 10\<close> keeps it, and it is not a number.
\<close>

definition objectPrototypeMembers :: "string list" where
  "objectPrototypeMembers =
     [''constructor'', ''__proto__'', ''hasOwnProperty'', ''isPrototypeOf'',
      ''propertyIsEnumerable'', ''toLocaleString'', ''toString'', ''valueOf'',
      ''__defineGetter__'', ''__defineSetter__'', ''__lookupGetter__'', ''__lookupSetter__'']"

text \<open>
  \<open>languagePopularity[key] || 10\<close>: the score of a key of the table, 10 for a key that
  is found nowhere, and \<open>None\<close> where the value read is an inherited member.
\<close>

definition popularityOrDefault :: "string \<Rightarrow> nat option" where
  "popularityOrDefault key =
     (case languagePopularity key of
        Some v \<Rightarrow> Some (or_default (Some v) 10)
      | None \<Rightarrow> if key \<in> set objectPrototypeMembers then None else Some 10)"

text \<open>
  \<open>calculateModelPriority\<close>. The result \<open>None\<close> is \<open>NaN\<close>: the sum of an inherited
  member and anything is a string, half of that string is \<open>NaN\<close>, and the additions,
  \<open>Math.round\<close> and \<open>Math.max\<close> pass \<open>NaN\<close> on.
\<close>

definition calculateModelPriority :: "ModelConfigItem \<Rightarrow> int option" where
  "calculateModelPriority config =
     (case (popularityOrDefault (srcLang config), popularityOrDefault (targetLang config)) of
        (Some srcPop, Some targetPop) \<Rightarrow>
          let priority0 = (real srcPop + real targetPop) / 2;
              priority1 = (if srcLang config = ''en'' \<or> targetLang config = ''en''
                           then priority0 + 20 else priority0);
              sizeInBytes = or_default (Some (cfg_size config)) 15 * 1024 * 1024;
              priority2 = (if sizeInBytes > 50 * 1024 * 1024 then priority1 - 10 else priority1)
          in Some (max 1 (Math_round priority2))
      | _ \<Rightarrow> None)"



section \<open>The model manager (services/modelManager.ts)\<close>

record ModelInfo =
  info_id :: string
  info_name :: string
  info_url :: string
  info_version :: string
  localPath :: "string option"
  isDownloaded :: bool
  downloadProgress :: "real option"
  downloadJobId :: "nat option"
  lastChecked :: "nat option"
  priority :: "int option"
  downloadSize :: "nat option"
  usageCount :: "nat option"
  lastUsed :: "nat option"

record DownloadQueueItem =
  modelId :: string
  q_priority :: int
  estimatedSize :: nat
  addedAt :: nat

record ProgressiveDownloadOptions =
  maxConcurrentDownloads :: "nat option"
  prioritizeByUsage :: "bool option"
  downloadOnWifiOnly :: "bool option"
  maxStorageUsage :: "nat option"

text \<open>
  An invocation of \<open>processDownloadQueue\<close> that is suspended at
  \<open>await this.wouldExceedStorageLimit(...)\<close>: it has already taken \<open>nextItem\<close> off the
  queue and holds the \<open>maxConcurrent\<close> it read when it was called.
\<close>

record SuspendedCheck =
  nextItem :: DownloadQueueItem
  maxConcurrent :: nat

text \<open>
  The fields of the class, and the two kinds of suspended asynchronous calls of the
  scheduler. \<open>models\<close> is a JavaScript \<open>Map\<close>: an association list in insertion order,
  read with \<open>map_of\<close> and written with \<open>AList.update\<close> (a known key keeps its place, a
  new key goes last). \<open>activeDownloads\<close> is a \<open>Set\<close>: a list without repetitions, in
  insertion order. \<open>suspendedChecks\<close> are the invocations of \<open>processDownloadQueue\<close>
  waiting for their storage check; \<open>transfers\<close> are the invocations of
  \<open>downloadModelProgressively\<close> waiting for \<open>downloadModel\<close>, each with the model id and
  the \<open>modelConfig\<close> that \<open>downloadModel\<close> read from the map when it was called.
\<close>

record ModelManager =
  models :: "(string \<times> ModelInfo) list"
  modelDir :: string
  downloadQueue :: "DownloadQueueItem list"
  activeDownloads :: "string list"
  progressiveOptions :: ProgressiveDownloadOptions
  suspendedChecks :: "SuspendedCheck list"
  transfers :: "(string \<times> ModelInfo option) list"

datatype error =
  ModelNotFound string
  | FileSystemError string
  | NoModelAvailable string string
  | InferenceError string
  | TypeError string

definition defaultOptions :: ProgressiveDownloadOptions where
  "defaultOptions = \<lparr> maxConcurrentDownloads = Some 2, prioritizeByUsage = Some True,
     downloadOnWifiOnly = Some False, maxStorageUsage = Some (500 * 1024 * 1024) \<rparr>"

definition set_add :: "'a \<Rightarrow> 'a list \<Rightarrow> 'a list" where
  "set_add x xs = (if x \<in> set xs then xs else xs @ [x])"

definition remove_nth :: "nat \<Rightarrow> 'a list \<Rightarrow> 'a list" where
  "remove_nth k xs = take k xs @ drop (Suc k) xs"

text \<open>
  \<open>getCurrentStorageUsage\<close>: \<open>stat\<close> is what \<open>FileSystem.stat\<close> of the model directory
  gives, \<open>None\<close> when it throws or reports no numeric size.
\<close>

definition getCurrentStorageUsage :: "nat option \<Rightarrow> nat" where
  "getCurrentStorageUsage stat = (case stat of Some n \<Rightarrow> n | None \<Rightarrow> 0)"

definition maxUsage :: "ModelManager \<Rightarrow> nat" where
  "maxUsage m = or_default (maxStorageUsage (progressiveOptions m)) (500 * 1024 * 1024)"

definition wouldExceedStorageLimit :: "nat option \<Rightarrow> nat \<Rightarrow> ModelManager \<Rightarrow> bool" where
  "wouldExceedStorageLimit stat additionalSize m =
     (getCurrentStorageUsage stat + additionalSize > maxUsage m)"

text \<open>
  The loop of \<open>processDownloadQueue\<close> from its head up to the next suspension: when there
  is capacity and the queue is not empty the head is shifted off and the invocation
  suspends at the storage check; otherwise the invocation ends.
\<close>

definition admitLoop :: "nat \<Rightarrow> ModelManager \<Rightarrow> ModelManager" where
  "admitLoop maxC m =
     (case downloadQueue m of
        [] \<Rightarrow> m
      | item # rest \<Rightarrow>
          if length (activeDownloads m) < maxC
          then m\<lparr> downloadQueue := rest,
                  suspendedChecks := suspendedChecks m @ [\<lparr> nextItem = item, maxConcurrent = maxC \<rparr>] \<rparr>
          else m)"

definition processDownloadQueue :: "ModelManager \<Rightarrow> ModelManager" where
  "processDownloadQueue m =
     admitLoop (or_default (maxConcurrentDownloads (progressiveOptions m)) 2) m"

text \<open>
  \<open>addToDownloadQueue\<close>; \<open>now\<close> is the clock reading of \<open>new Date()\<close>.
  \<open>Array.prototype.sort\<close> is stable, and the comparator \<open>b.priority - a.priority\<close> puts
  the higher priority first: a stable sort on the negated priority.
\<close>

definition addToDownloadQueue :: "string \<Rightarrow> int \<Rightarrow> nat \<Rightarrow> nat \<Rightarrow> ModelManager \<Rightarrow> ModelManager" where
  "addToDownloadQueue mid prio size_est now m =
     (if list_ex (\<lambda>item. modelId item = mid) (downloadQueue m) \<or> mid \<in> set (activeDownloads m)
      then m
      else
        let queueItem = \<lparr> modelId = mid, q_priority = prio, estimatedSize = size_est, addedAt = now \<rparr>;
            pushed = downloadQueue m @ [queueItem];
            sorted_queue = sort_key (\<lambda>item. - q_priority item) pushed
        in processDownloadQueue (m\<lparr> downloadQueue := sorted_queue \<rparr>))"

text \<open>
  \<open>downloadModelProgressively\<close> up to its suspension at \<open>await this.downloadModel\<close>: the
  model joins the active set, and \<open>downloadModel\<close> has read its \<open>modelConfig\<close>.
\<close>

definition downloadModelProgressively :: "string \<Rightarrow> ModelManager \<Rightarrow> ModelManager" where
  "downloadModelProgressively mid m =
     m\<lparr> activeDownloads := set_add mid (activeDownloads m),
        transfers := transfers m @ [(mid, map_of (models m) mid)] \<rparr>"

text \<open>
  The \<open>k\<close>-th suspended invocation of \<open>processDownloadQueue\<close> resumes with the answer of
  its storage check: an entry that would exceed the limit is skipped (\<open>continue\<close>), any
  other is started; then the loop goes on.
\<close>

definition resumeStorageCheck :: "nat \<Rightarrow> nat option \<Rightarrow> ModelManager \<Rightarrow> ModelManager" where
  "resumeStorageCheck k stat m =
     (if k < length (suspendedChecks m) then
        let c = suspendedChecks m ! k;
            m1 = m\<lparr> suspendedChecks := remove_nth k (suspendedChecks m) \<rparr>
        in if wouldExceedStorageLimit stat (estimatedSize (nextItem c)) m1
           then admitLoop (maxConcurrent c) m1
           else admitLoop (maxConcurrent c) (downloadModelProgressively (modelId (nextItem c)) m1)
      else m)"

text \<open>
  What the file system does during one \<open>downloadModel\<close>: the progress ratios it reports,
  in order, and the error it ends with, if any (from \<open>exists\<close>, \<open>mkdir\<close> or
  \<open>downloadFile\<close>).
\<close>

record Transfer =
  progressReports :: "real list"
  failure :: "string option"

definition modelJsonPath :: "ModelManager \<Rightarrow> string \<Rightarrow> string" where
  "modelJsonPath m mid = modelDir m @ ''/'' @ mid @ ''/model.json''"

text \<open>
  The part of \<open>downloadModel\<close> after \<open>modelConfig\<close> was read and found not downloaded.
  Each progress report stores \<open>{...modelConfig, downloadProgress}\<close>; success stores the
  downloaded entry; a failure is rethrown.
\<close>

definition runTransfer :: "string \<Rightarrow> ModelInfo \<Rightarrow> Transfer \<Rightarrow> nat \<Rightarrow> ModelManager
    \<Rightarrow> (error + ModelInfo) \<times> ModelManager" where
  "runTransfer mid modelConfig t now m =
     (let m1 = foldl (\<lambda>s p. s\<lparr> models := AList.update mid (modelConfig\<lparr> downloadProgress := Some p \<rparr>) (models s) \<rparr>)
                 m (progressReports t)
      in case failure t of
           Some e \<Rightarrow> (Inl (FileSystemError e), m1)
         | None \<Rightarrow>
             let updatedModel = modelConfig\<lparr> info_id := mid, localPath := Some (modelJsonPath m mid),
                   isDownloaded := True, downloadProgress := Some 1, lastChecked := Some now \<rparr>
             in (Inr updatedModel, m1\<lparr> models := AList.update mid updatedModel (models m1) \<rparr>))"

definition finishDownload :: "string \<Rightarrow> ModelInfo option \<Rightarrow> Transfer \<Rightarrow> nat \<Rightarrow> ModelManager
    \<Rightarrow> (error + ModelInfo) \<times> ModelManager" where
  "finishDownload mid captured t now m =
     (case captured of
        None \<Rightarrow> (Inl (ModelNotFound mid), m)
      | Some modelConfig \<Rightarrow>
          if isDownloaded modelConfig then (Inr modelConfig, m)
          else runTransfer mid modelConfig t now m)"

text \<open>\<open>downloadModel\<close> as its caller sees it, from the call to the settled promise.\<close>

definition downloadModel :: "string \<Rightarrow> Transfer \<Rightarrow> nat \<Rightarrow> ModelManager
    \<Rightarrow> (error + ModelInfo) \<times> ModelManager" where
  "downloadModel mid t now m = finishDownload mid (map_of (models m) mid) t now m"

text \<open>
  The \<open>k\<close>-th progressive transfer settles: \<open>downloadModelProgressively\<close> logs a failure,
  and in its \<open>finally\<close> removes the model from the active set and calls
  \<open>processDownloadQueue\<close>.
\<close>

definition settleTransfer :: "nat \<Rightarrow> Transfer \<Rightarrow> nat \<Rightarrow> ModelManager \<Rightarrow> ModelManager" where
  "settleTransfer k t now m =
     (if k < length (transfers m) then
        let (mid, captured) = transfers m ! k;
            m1 = m\<lparr> transfers := remove_nth k (transfers m) \<rparr>;
            m2 = snd (finishDownload mid captured t now m1)
        in processDownloadQueue (m2\<lparr> activeDownloads := removeAll mid (activeDownloads m2) \<rparr>)
      else m)"

text \<open>
  \<open>requestModel\<close>; an urgent request returns the promise of \<open>downloadModel\<close>, which the
  caller awaits.
\<close>

definition requestModel :: "string \<Rightarrow> bool \<Rightarrow> Transfer \<Rightarrow> nat \<Rightarrow> ModelManager
    \<Rightarrow> (error + ModelInfo) \<times> ModelManager" where
  "requestModel mid urgent t now m =
     (case map_of (models m) mid of
        None \<Rightarrow> (Inl (ModelNotFound mid), m)
      | Some model \<Rightarrow>
          let updatedModel = model\<lparr> usageCount := Some (or_default (usageCount model) 0 + 1),
                                      lastUsed := Some now \<rparr>;
              m1 = m\<lparr> models := AList.update mid updatedModel (models m) \<rparr>
          in if isDownloaded model then (Inr updatedModel, m1)
             else if urgent then downloadModel mid t now m1
             else
               let boostedPriority = or_default (priority model) 1 + 50
               in (Inr updatedModel,
                   addToDownloadQueue mid boostedPriority
                     (or_default (downloadSize model) (15 * 1024 * 1024)) now m1))"

text \<open>
  \<open>startProgressiveDownloading\<close>: the five undownloaded models of highest priority are
  queued, then the queue is processed. The function has no \<open>await\<close>, so it runs as one
  step. \<open>now\<close> is the clock reading of each \<open>new Date()\<close> in it.
\<close>

definition startProgressiveDownloading :: "nat \<Rightarrow> ModelManager \<Rightarrow> ModelManager" where
  "startProgressiveDownloading now m =
     (let undownloadedModels =
            sort_key (\<lambda>model. - or_default (priority model) 0)
              (filter (\<lambda>model. \<not> isDownloaded model) (map snd (models m)));
          queued = foldl (\<lambda>s model. addToDownloadQueue (info_id model) (or_default (priority model) 1)
                      (or_default (downloadSize model) (15 * 1024 * 1024)) now s)
                    m (take 5 undownloadedModels)
      in processDownloadQueue queued)"

definition pauseProgressiveDownloading :: "ModelManager \<Rightarrow> ModelManager" where
  "pauseProgressiveDownloading m = m\<lparr> downloadQueue := [] \<rparr>"

text \<open>
  The field \<open>priority\<close> of an entry is only ever read as \<open>priority || d\<close>, which takes
  \<open>NaN\<close> and \<open>undefined\<close> alike, so a \<open>NaN\<close> priority is kept as \<open>None\<close>.

  The constructor and \<open>initializeModelConfigs\<close>: one entry per catalogue item, downloaded
  when its \<open>model.json\<close> is on disk (\<open>onDisk\<close> answers \<open>FileSystem.exists\<close>), then
  progressive downloading starts. This is the run in which no file system call throws; a
  throw ends the initialisation early and is only logged.
\<close>

definition newManager :: "string \<Rightarrow> ModelManager" where
  "newManager documentDirectoryPath =
     \<lparr> models = [], modelDir = documentDirectoryPath @ ''/ml-models'', downloadQueue = [],
       activeDownloads = [], progressiveOptions = defaultOptions, suspendedChecks = [],
       transfers = [] \<rparr>"

definition initialModelInfo :: "ModelManager \<Rightarrow> (string \<Rightarrow> bool) \<Rightarrow> ModelConfigItem \<Rightarrow> ModelInfo" where
  "initialModelInfo m onDisk config =
     (let path = modelJsonPath m (cfg_id config); downloaded = onDisk path
      in \<lparr> info_id = cfg_id config, info_name = cfg_name config, info_url = cfg_url config,
           info_version = cfg_version config,
           localPath = (if downloaded then Some path else None),
           isDownloaded = downloaded, downloadProgress = None, downloadJobId = None,
           lastChecked = None, priority = calculateModelPriority config,
           downloadSize = Some (or_default (Some (cfg_size config)) 15 * 1024 * 1024),
           usageCount = Some 0, lastUsed = None \<rparr>)"

definition initializeModelConfigs :: "(string \<Rightarrow> bool) \<Rightarrow> nat \<Rightarrow> ModelManager \<Rightarrow> ModelManager" where
  "initializeModelConfigs onDisk now m =
     startProgressiveDownloading now
       (foldl (\<lambda>s config. s\<lparr> models := AList.update (cfg_id config) (initialModelInfo s onDisk config) (models s) \<rparr>)
          m MODEL_CONFIGS)"

text \<open>
  \<open>deleteModel\<close>; \<open>unlinkError\<close> is the error \<open>FileSystem.unlink\<close> throws, if any.
\<close>

definition deleteModel :: "string \<Rightarrow> string option \<Rightarrow> ModelManager \<Rightarrow> (error + unit) \<times> ModelManager" where
  "deleteModel mid unlinkError m =
     (case map_of (models m) mid of
        None \<Rightarrow> (Inr (), m)
      | Some modelInfo \<Rightarrow>
          if \<not> isDownloaded modelInfo \<or> localPath modelInfo = None \<or> localPath modelInfo = Some []
          then (Inr (), m)
          else (case unlinkError of
                  Some e \<Rightarrow> (Inl (FileSystemError e), m)
                | None \<Rightarrow>
                    let updatedModel = modelInfo\<lparr> info_id := mid, localPath := None,
                          isDownloaded := False, downloadProgress := None \<rparr>
                    in (Inr (), m\<lparr> models := AList.update mid updatedModel (models m) \<rparr>)))"

text \<open>
  The scheduler as a transition system: a call of \<open>addToDownloadQueue\<close>, the answer of a
  pending storage check, or the end of a transfer. Each runs to its next suspension
  before another begins, as the event loop does.
\<close>

datatype event =
  AddToQueue string int nat nat
  | StorageChecked nat "nat option"
  | TransferSettled nat Transfer nat

fun step :: "ModelManager \<Rightarrow> event \<Rightarrow> ModelManager" where
  "step m (AddToQueue mid prio size_est now) = addToDownloadQueue mid prio size_est now m"
| "step m (StorageChecked k stat) = resumeStorageCheck k stat m"
| "step m (TransferSettled k t now) = settleTransfer k t now m"

definition run :: "ModelManager \<Rightarrow> event list \<Rightarrow> ModelManager" where
  "run m events = foldl step m events"

text \<open>
  The entries that a list of events puts on the queue, in the order in which they are
  put there: one for each call of \<open>addToDownloadQueue\<close> that gets past the check for a
  model already queued or active.
\<close>

fun pushed :: "ModelManager \<Rightarrow> event \<Rightarrow> DownloadQueueItem list" where
  "pushed m (AddToQueue mid prio size_est now) =
     (if list_ex (\<lambda>item. modelId item = mid) (downloadQueue m) \<or> mid \<in> set (activeDownloads m)
      then []
      else [\<lparr> modelId = mid, q_priority = prio, estimatedSize = size_est, addedAt = now \<rparr>])"
| "pushed m e = []"

fun enqueued :: "ModelManager \<Rightarrow> event list \<Rightarrow> DownloadQueueItem list" where
  "enqueued m [] = []"
| "enqueued m (e # es) = pushed m e @ enqueued (step m e) es"

text \<open>
  The order of the queue \<open>q\<close>, given the list \<open>entries\<close> of what was enqueued so far, in
  the order of enqueueing: priorities do not increase along the queue, and for every priority
  the entries of that priority in the queue are the last ones enqueued with it, in the
  order in which they were enqueued.
\<close>

definition queue_fifo :: "DownloadQueueItem list \<Rightarrow> DownloadQueueItem list \<Rightarrow> bool" where
  "queue_fifo q entries =
     (sorted_wrt (\<lambda>a b. q_priority a \<ge> q_priority b) q
      \<and> (\<forall>p. suffix (filter (\<lambda>item. q_priority item = p) q)
                      (filter (\<lambda>item. q_priority item = p) entries)))"

section \<open>Strings\<close>

text \<open>
  A text is a list of characters, each standing for one UTF-16 code unit below 256.
  \<open>String.prototype.trim\<close> removes the white space of that range from both ends, and
  \<open>toLowerCase\<close> maps the capital letters of that range to their small letters.
\<close>

definition isWhiteSpace :: "char \<Rightarrow> bool" where
  "isWhiteSpace c = (of_char c \<in> set [9, 10, 11, 12, 13, 32, 160 :: nat])"

definition trim :: "string \<Rightarrow> string" where
  "trim s = rev (dropWhile isWhiteSpace (rev (dropWhile isWhiteSpace s)))"

definition lowerChar :: "char \<Rightarrow> char" where
  "lowerChar c =
     (let n = (of_char c :: nat)
      in if (65 \<le> n \<and> n \<le> 90) \<or> (192 \<le> n \<and> n \<le> 222 \<and> n \<noteq> 215)
         then char_of (n + 32) else c)"

definition toLowerCase :: "string \<Rightarrow> string" where
  "toLowerCase s = map lowerChar s"

section \<open>Language detection (languageDetectionService)\<close>

record Language =
  code :: string
  name :: string
  nativeName :: string
  flag :: string

text \<open>
  \<open>detectedLanguage\<close> is \<open>None\<close> where the code yields \<open>undefined\<close> (the list of
  languages is empty).
\<close>

record DetectionResult =
  detectedLanguage :: "Language option"
  det_confidence :: real
  alternativeLanguages :: "(Language \<times> real) list"

definition languageCodeMapping :: "string \<rightharpoonup> string" where
  "languageCodeMapping = map_of
     [(''eng'', ''en''), (''tur'', ''tr''), (''spa'', ''es''), (''fra'', ''fr''),
      (''deu'', ''de''), (''rus'', ''ru''), (''ara'', ''ar''), (''zho'', ''zh''),
      (''jpn'', ''ja''), (''kor'', ''ko''), (''ita'', ''it''), (''por'', ''pt'')]"

definition minTextLength :: nat where
  "minTextLength = 10"

text \<open>
  The list \<open>LANGUAGES\<close> of \<open>constants/languages\<close> is a parameter of every function that
  reads it.
\<close>

definition findLanguage :: "Language list \<Rightarrow> string \<Rightarrow> Language option" where
  "findLanguage LANGUAGES c = find (\<lambda>lang. code lang = c) LANGUAGES"

text \<open>\<open>LANGUAGES.find(lang => lang.code === 'en') || LANGUAGES[0]\<close>\<close>

definition englishOrFirst :: "Language list \<Rightarrow> Language option" where
  "englishOrFirst LANGUAGES =
     (case findLanguage LANGUAGES ''en'' of
        Some lang \<Rightarrow> Some lang
      | None \<Rightarrow> (case LANGUAGES of [] \<Rightarrow> None | lang # rest \<Rightarrow> Some lang))"

definition createDefaultResult :: "Language list \<Rightarrow> DetectionResult" where
  "createDefaultResult LANGUAGES =
     \<lparr> detectedLanguage = englishOrFirst LANGUAGES, det_confidence = 3 / 10,
       alternativeLanguages = [] \<rparr>"

definition getLangdetectCode :: "Language list \<Rightarrow> string \<Rightarrow> string" where
  "getLangdetectCode LANGUAGES langdetectCode =
     (let baseLang = toLowerCase (takeWhile (\<lambda>c. c \<noteq> CHR ''-'') langdetectCode)
      in if list_ex (\<lambda>lang. code lang = baseLang) LANGUAGES then baseLang else ''en'')"

text \<open>
  The loop of \<open>getAlternativeLanguages\<close> over the first four results: \<open>continue\<close> on the
  primary language, \<open>break\<close> once three alternatives are collected.
\<close>

fun alternativesLoop :: "Language list \<Rightarrow> string \<Rightarrow> (string \<times> real) list
    \<Rightarrow> (Language \<times> real) list \<Rightarrow> (Language \<times> real) list" where
  "alternativesLoop LANGUAGES primaryCode [] alternatives = alternatives"
| "alternativesLoop LANGUAGES primaryCode (result # results) alternatives =
     (let c = getLangdetectCode LANGUAGES (fst result)
      in if c = primaryCode then alternativesLoop LANGUAGES primaryCode results alternatives
         else
           let alternatives' =
                 (case findLanguage LANGUAGES c of
                    Some language \<Rightarrow> alternatives @ [(language, min (9 / 10) (snd result))]
                  | None \<Rightarrow> alternatives)
           in if length alternatives' \<ge> 3 then alternatives'
              else alternativesLoop LANGUAGES primaryCode results alternatives')"

definition getAlternativeLanguages :: "Language list \<Rightarrow> (string \<times> real) list option \<Rightarrow> string
    \<Rightarrow> (Language \<times> real) list" where
  "getAlternativeLanguages LANGUAGES langdetectResults primaryCode =
     (case langdetectResults of
        None \<Rightarrow> []
      | Some results \<Rightarrow>
          if length results \<le> 1 then []
          else alternativesLoop LANGUAGES primaryCode (take 4 results) [])"

text \<open>
  \<open>detectLanguage\<close>. The two detectors are parameters: \<open>franc\<close> answers with an ISO 639-3
  code, \<open>langdetect\<close> with a ranked list of codes and probabilities or with \<open>null\<close>;
  either may throw. The \<open>options\<close> argument only sets a local that is never read.
\<close>

definition detectLanguage :: "Language list \<Rightarrow> (string \<Rightarrow> 'e + string)
    \<Rightarrow> (string \<Rightarrow> 'e + (string \<times> real) list option) \<Rightarrow> string \<Rightarrow> DetectionResult" where
  "detectLanguage LANGUAGES franc langdetect text =
     (if text = [] \<or> length (trim text) < minTextLength then createDefaultResult LANGUAGES
      else
        case franc text of
          Inl e \<Rightarrow> createDefaultResult LANGUAGES
        | Inr francResult \<Rightarrow>
           (case langdetect text of
              Inl e \<Rightarrow> createDefaultResult LANGUAGES
            | Inr langdetectResults \<Rightarrow>
                let iso6391Code = (case languageCodeMapping francResult of Some c \<Rightarrow> c | None \<Rightarrow> ''en'');
                    detected = (case findLanguage LANGUAGES iso6391Code of
                                  Some lang \<Rightarrow> Some lang | None \<Rightarrow> englishOrFirst LANGUAGES);
                    confidence1 =
                      (case langdetectResults of
                         Some (first # rest) \<Rightarrow>
                           if getLangdetectCode LANGUAGES (fst first) = iso6391Code
                           then min (95 / 100) (7 / 10 + snd first) else 5 / 10
                       | _ \<Rightarrow> 6 / 10)
                in case detected of
                     None \<Rightarrow> createDefaultResult LANGUAGES
                   | Some lang \<Rightarrow>
                       \<lparr> detectedLanguage = Some lang, det_confidence = confidence1,
                         alternativeLanguages =
                           getAlternativeLanguages LANGUAGES langdetectResults (code lang) \<rparr>))"

definition manualLanguageOverride :: "Language list \<Rightarrow> string \<Rightarrow> string \<Rightarrow> DetectionResult" where
  "manualLanguageOverride LANGUAGES text manualLanguageCode =
     (case findLanguage LANGUAGES manualLanguageCode of
        None \<Rightarrow> createDefaultResult LANGUAGES
      | Some language \<Rightarrow>
          \<lparr> detectedLanguage = Some language, det_confidence = 98 / 100, alternativeLanguages = [] \<rparr>)"

section \<open>Confidence scoring (MlService.calculateTranslationConfidence)\<close>

text \<open>
  A JavaScript number that may have left the reals: arithmetic on finite numbers is exact
  real arithmetic here, zero is taken as positive zero, and division by zero gives \<open>NaN\<close>
  or an infinity as IEEE 754 does.
\<close>

datatype jsnum = Fin real | PosInf | NegInf | NaN

fun js_neg :: "jsnum \<Rightarrow> jsnum" where
  "js_neg (Fin a) = Fin (- a)"
| "js_neg PosInf = NegInf"
| "js_neg NegInf = PosInf"
| "js_neg NaN = NaN"

fun js_add :: "jsnum \<Rightarrow> jsnum \<Rightarrow> jsnum" where
  "js_add NaN y = NaN"
| "js_add x NaN = NaN"
| "js_add (Fin a) (Fin b) = Fin (a + b)"
| "js_add PosInf NegInf = NaN"
| "js_add NegInf PosInf = NaN"
| "js_add PosInf y = PosInf"
| "js_add x PosInf = PosInf"
| "js_add NegInf y = NegInf"
| "js_add x NegInf = NegInf"

definition js_sub :: "jsnum \<Rightarrow> jsnum \<Rightarrow> jsnum" where
  "js_sub x y = js_add x (js_neg y)"

fun js_negative :: "jsnum \<Rightarrow> bool" where
  "js_negative (Fin a) = (a < 0)"
| "js_negative NegInf = True"
| "js_negative x = False"

fun js_mul :: "jsnum \<Rightarrow> jsnum \<Rightarrow> jsnum" where
  "js_mul NaN y = NaN"
| "js_mul x NaN = NaN"
| "js_mul (Fin a) (Fin b) = Fin (a * b)"
| "js_mul x y =
     (if x = Fin 0 \<or> y = Fin 0 then NaN
      else if js_negative x = js_negative y then PosInf else NegInf)"

definition js_div :: "real \<Rightarrow> real \<Rightarrow> jsnum" where
  "js_div a b =
     (if b \<noteq> 0 then Fin (a / b)
      else if a = 0 then NaN
      else if (a < 0) = (b < 0) then PosInf else NegInf)"

fun js_le :: "jsnum \<Rightarrow> jsnum \<Rightarrow> bool" where
  "js_le (Fin a) (Fin b) = (a \<le> b)"
| "js_le NegInf y = True"
| "js_le x PosInf = True"
| "js_le x y = False"

definition Math_min :: "jsnum \<Rightarrow> jsnum \<Rightarrow> jsnum" where
  "Math_min x y = (if x = NaN \<or> y = NaN then NaN else if js_le x y then x else y)"

definition Math_max :: "jsnum \<Rightarrow> jsnum \<Rightarrow> jsnum" where
  "Math_max x y = (if x = NaN \<or> y = NaN then NaN else if js_le x y then y else x)"

text \<open>
  \<open>softmax\<close>; \<open>Math.max(...logits)\<close> of a list that is not empty is its greatest element.
\<close>

definition softmax :: "real list \<Rightarrow> real list" where
  "softmax logits =
     (let maxLogit = Max (set logits);
          expLogits = map (\<lambda>x. exp (x - maxLogit)) logits;
          sumExp = foldl (\<lambda>sum e. sum + e) 0 expLogits
      in map (\<lambda>e. e / sumExp) expLogits)"

definition calculateTranslationConfidence :: "real list \<Rightarrow> jsnum" where
  "calculateTranslationConfidence predictions =
     (if predictions = [] then Fin 0
      else
        let probs = softmax predictions;
            geometricMean =
              (foldl (\<lambda>prod prob. prod * max prob (1 / 1000)) 1 probs) powr (1 / real (length probs));
            entropy = - foldl (\<lambda>sum prob. sum + (if prob > 0 then prob * ln prob else 0)) 0 probs;
            maxEntropy = ln (real (length probs));
            normalizedEntropy = js_div entropy maxEntropy;
            entropyConfidence = js_sub (Fin 1) normalizedEntropy;
            maxProb = Max (set probs);
            combinedConfidence =
              js_add (js_add (Fin (4 / 10 * geometricMean)) (js_mul (Fin (3 / 10)) entropyConfidence))
                     (Fin (3 / 10 * maxProb))
        in Math_max (Fin 0) (Math_min (Fin 1) combinedConfidence))"

section \<open>The translation service (services/translationService.ts)\<close>

record AlternativeTranslation =
  alt_text :: string
  alt_confidence :: "jsnum option"

text \<open>The \<open>TranslationResult\<close> of mlService.ts; \<open>tr_modelId\<close> is its field \<open>modelId\<close>.\<close>

record TranslationResult =
  translatedText :: string
  confidence :: "jsnum option"
  alternatives :: "AlternativeTranslation list option"
  timeTaken :: "nat option"
  tr_modelId :: string

record TranslationOptions =
  useOfflineOnly :: "bool option"
  preferredModel :: "string option"
  maxTimeout :: "nat option"

record ModelStatus =
  st_isDownloaded :: bool
  isDownloading :: bool
  st_downloadProgress :: "real option"

text \<open>The argument of one call of \<open>translationHistoryService.addTranslation\<close>.\<close>

record HistoryCall =
  h_originalText :: string
  h_translatedText :: string
  h_sourceLanguage :: Language
  h_targetLanguage :: Language
  h_modelId :: string
  h_translationConfidence :: "jsnum option"
  h_detectionConfidence :: "real option"

text \<open>
  The fields of the service, and the calls it has made to its collaborators, in order:
  \<open>historyCalls\<close> to \<open>translationHistoryService.addTranslation\<close>, \<open>downloadCalls\<close> to
  \<open>modelManager.downloadModel\<close>. The field \<open>fallbackToMock\<close> is initialised to \<open>true\<close>
  and never assigned.
\<close>

record TranslationService =
  modelStatus :: "string \<rightharpoonup> ModelStatus"
  initialized :: bool
  historyCalls :: "HistoryCall list"
  downloadCalls :: "string list"

definition fallbackToMock :: bool where
  "fallbackToMock = True"

text \<open>
  What \<open>translate\<close> reads from outside the service: the language list, the two detectors,
  the models the manager knows, and \<open>mlService.translateText\<close>, which answers with a
  result or throws.
\<close>

record Collaborators =
  LANGUAGES :: "Language list"
  franc :: "string \<Rightarrow> error + string"
  langdetect :: "string \<Rightarrow> error + (string \<times> real) list option"
  availableModels :: "ModelInfo list"
  translateText :: "string \<Rightarrow> string \<Rightarrow> string \<Rightarrow> string \<Rightarrow> error + TranslationResult"

definition initialize :: "ModelInfo list \<Rightarrow> TranslationService \<Rightarrow> TranslationService" where
  "initialize models_list s =
     (foldl (\<lambda>s' model. s'\<lparr> modelStatus := (modelStatus s')(info_id model \<mapsto>
               \<lparr> st_isDownloaded = isDownloaded model, isDownloading = False,
                 st_downloadProgress = downloadProgress model \<rparr>) \<rparr>) s models_list)
       \<lparr> initialized := True \<rparr>"

definition ensureInitialized :: "Collaborators \<Rightarrow> TranslationService \<Rightarrow> TranslationService" where
  "ensureInitialized env s = (if initialized s then s else initialize (availableModels env) s)"

definition mockTranslations :: "string \<rightharpoonup> (string \<rightharpoonup> string)" where
  "mockTranslations = map_of
     [(''hello'', map_of [(''tr'', ''merhaba''), (''es'', ''hola''), (''fr'', ''bonjour'')]),
      (''thank you'', map_of
         [(''tr'', ''te'' @ [CHR 0xC5, CHR 0x9F] @ ''ekk'' @ [CHR 0xC3, CHR 0xBC] @ ''r ederim''),
          (''es'', ''gracias''), (''fr'', ''merci'')]),
      (''goodbye'', map_of
         [(''tr'', ''ho'' @ [CHR 0xC5, CHR 0x9F] @ [CHR 0xC3, CHR 0xA7] @ ''a kal''),
          (''es'', ''adi'' @ [CHR 0xC3, CHR 0xB3] @ ''s''), (''fr'', ''au revoir'')])]"

text \<open>
  \<open>mockTranslate\<close>. The translations of the phrase table that have letters outside ASCII
  are written in UTF-8; no function reads them.
\<close>

definition mockTranslate :: "string \<Rightarrow> Language \<Rightarrow> Language \<Rightarrow> TranslationResult" where
  "mockTranslate text sourceLanguage targetLanguage =
     (let lowerText = trim (toLowerCase text);
          fallback = ''['' @ name targetLanguage @ ''] '' @ text;
          translated =
            (case mockTranslations lowerText of
               None \<Rightarrow> fallback
             | Some entry \<Rightarrow>
                 (case entry (code targetLanguage) of
                    None \<Rightarrow> fallback
                  | Some t \<Rightarrow> if t = [] then fallback else t))
      in \<lparr> translatedText = translated, confidence = Some (Fin (1 / 10)), alternatives = Some [],
           timeTaken = Some 10, tr_modelId = ''mock'' \<rparr>)"

definition getModelIdForLanguagePair :: "string \<Rightarrow> string \<Rightarrow> string option" where
  "getModelIdForLanguagePair sourceCode targetCode =
     map_option cfg_id
       (find (\<lambda>config. srcLang config = sourceCode \<and> targetLang config = targetCode) MODEL_CONFIGS)"

text \<open>
  \<open>TranslationService.downloadModel\<close> up to its suspension at
  \<open>await modelManager.downloadModel(modelId)\<close>. \<open>translate\<close> calls it without awaiting it,
  so this is all of it that runs before \<open>translate\<close> returns; with no model for the pair
  its promise is rejected and nothing else happens.
\<close>

definition beginDownloadModel :: "string \<Rightarrow> string \<Rightarrow> TranslationService \<Rightarrow> TranslationService" where
  "beginDownloadModel sourceCode targetCode s =
     (case getModelIdForLanguagePair sourceCode targetCode of
        None \<Rightarrow> s
      | Some mid \<Rightarrow>
          if mid = [] then s
          else s\<lparr> modelStatus := (modelStatus s)(mid \<mapsto>
                      \<lparr> st_isDownloaded = False, isDownloading = True, st_downloadProgress = Some 0 \<rparr>),
                   downloadCalls := downloadCalls s @ [mid] \<rparr>)"

definition addTranslation :: "string \<Rightarrow> TranslationResult \<Rightarrow> Language \<Rightarrow> Language \<Rightarrow> string
    \<Rightarrow> real option \<Rightarrow> TranslationService \<Rightarrow> TranslationService" where
  "addTranslation text result sourceLanguage targetLanguage mid detectionConfidence s =
     s\<lparr> historyCalls := historyCalls s @
          [\<lparr> h_originalText = text, h_translatedText = translatedText result,
             h_sourceLanguage = sourceLanguage, h_targetLanguage = targetLanguage,
             h_modelId = mid, h_translationConfidence = confidence result,
             h_detectionConfidence = detectionConfidence \<rparr>] \<rparr>"

text \<open>
  The first part of \<open>translate\<close>, before its \<open>try\<close>: the source language is the one given,
  or the detected one. Reading \<open>sourceLanguage.name\<close> of an undefined language throws.
\<close>

definition resolveSource :: "Collaborators \<Rightarrow> string \<Rightarrow> Language option
    \<Rightarrow> error + (Language \<times> real option)" where
  "resolveSource env text sourceLanguageInput =
     (case sourceLanguageInput of
        Some sourceLanguage \<Rightarrow> Inr (sourceLanguage, None)
      | None \<Rightarrow>
          let detectionResult = detectLanguage (LANGUAGES env) (franc env) (langdetect env) text
          in case detectedLanguage detectionResult of
               None \<Rightarrow> Inl (TypeError ''sourceLanguage is undefined'')
             | Some sourceLanguage \<Rightarrow> Inr (sourceLanguage, Some (det_confidence detectionResult)))"

definition modelIsDownloaded :: "TranslationService \<Rightarrow> string \<Rightarrow> bool" where
  "modelIsDownloaded s mid = (case modelStatus s mid of Some st \<Rightarrow> st_isDownloaded st | None \<Rightarrow> False)"

definition modelIsDownloading :: "TranslationService \<Rightarrow> string \<Rightarrow> bool" where
  "modelIsDownloading s mid = (case modelStatus s mid of Some st \<Rightarrow> isDownloading st | None \<Rightarrow> False)"

text \<open>The \<open>try\<close> and \<open>catch\<close> of \<open>translate\<close>.\<close>

definition translateResolved :: "Collaborators \<Rightarrow> string \<Rightarrow> Language \<Rightarrow> real option \<Rightarrow> Language
    \<Rightarrow> TranslationOptions \<Rightarrow> TranslationService \<Rightarrow> (error + TranslationResult) \<times> TranslationService" where
  "translateResolved env text sourceLanguage detectionConfidence targetLanguage options s =
     (let mockResult = mockTranslate text sourceLanguage targetLanguage;
          noModel = (Inr mockResult,
                     addTranslation text mockResult sourceLanguage targetLanguage
                       ''mock_no_model_config'' detectionConfidence s)
      in case getModelIdForLanguagePair (code sourceLanguage) (code targetLanguage) of
           None \<Rightarrow> noModel
         | Some mid \<Rightarrow>
             if mid = [] then noModel
             else if \<not> modelIsDownloaded s mid then
               let s1 = (if \<not> modelIsDownloading s mid \<and> useOfflineOnly options \<noteq> Some True
                         then beginDownloadModel (code sourceLanguage) (code targetLanguage) s
                         else s)
               in (Inr mockResult,
                   addTranslation text mockResult sourceLanguage targetLanguage
                     ''mock_model_unavailable'' detectionConfidence s1)
             else
               (case translateText env text (code sourceLanguage) (code targetLanguage) mid of
                  Inr mlResult \<Rightarrow>
                    (Inr mlResult,
                     addTranslation text mlResult sourceLanguage targetLanguage
                       (tr_modelId mlResult) detectionConfidence s)
                | Inl e \<Rightarrow>
                    if fallbackToMock
                    then (Inr mockResult,
                          addTranslation text mockResult sourceLanguage targetLanguage
                            (tr_modelId mockResult) detectionConfidence s)
                    else (Inl e, s)))"

definition translate :: "Collaborators \<Rightarrow> string \<Rightarrow> Language option \<Rightarrow> Language
    \<Rightarrow> TranslationOptions \<Rightarrow> TranslationService \<Rightarrow> (error + TranslationResult) \<times> TranslationService" where
  "translate env text sourceLanguageInput targetLanguage options s =
     (let s0 = ensureInitialized env s
      in case resolveSource env text sourceLanguageInput of
           Inl e \<Rightarrow> (Inl e, s0)
         | Inr (sourceLanguage, detectionConfidence) \<Rightarrow>
             translateResolved env text sourceLanguage detectionConfidence targetLanguage options s0)"

text \<open>
  A small setting to run \<open>translate\<close> in: two languages, detectors that recognise
  nothing, an inference engine that fails, and a service that knows of no downloaded
  model, or of the downloaded English-to-Turkish model.
\<close>

definition english :: Language where
  "english = \<lparr> code = ''en'', name = ''English'', nativeName = ''English'', flag = ''GB'' \<rparr>"

definition turkish :: Language where
  "turkish = \<lparr> code = ''tr'', name = ''Turkish'', nativeName = ''Turkce'', flag = ''TR'' \<rparr>"

definition example_collaborators :: Collaborators where
  "example_collaborators =
     \<lparr> LANGUAGES = [turkish, english], franc = (\<lambda>t. Inr ''und''), langdetect = (\<lambda>t. Inr None),
       availableModels = [],
       translateText = (\<lambda>t sourceCode targetCode mid. Inl (InferenceError ''Failed to load model'')) \<rparr>"

definition no_options :: TranslationOptions where
  "no_options = \<lparr> useOfflineOnly = None, preferredModel = None, maxTimeout = None \<rparr>"

definition service_without_models :: TranslationService where
  "service_without_models =
     \<lparr> modelStatus = Map.empty, initialized = True, historyCalls = [], downloadCalls = [] \<rparr>"

definition service_with_en2tr :: TranslationService where
  "service_with_en2tr =
     \<lparr> modelStatus = [''en2tr-small'' \<mapsto>
          \<lparr> st_isDownloaded = True, isDownloading = False, st_downloadProgress = Some 1 \<rparr>],
       initialized = True, historyCalls = [], downloadCalls = [] \<rparr>"

section \<open>Properties\<close>







subsection \<open>The download scheduler\<close>

lemmas mgr_defs = run_def addToDownloadQueue_def processDownloadQueue_def admitLoop_def
  resumeStorageCheck_def downloadModelProgressively_def wouldExceedStorageLimit_def
  getCurrentStorageUsage_def maxUsage_def or_default_def set_add_def remove_nth_def
  newManager_def defaultOptions_def

lemma catalogue_priorities:
  "calculateModelPriority en2tr_small = Some 83" "calculateModelPriority tr2en_small = Some 83"
  "calculateModelPriority opus_mt_en2tr_base = Some 73"
  by (simp_all add: calculateModelPriority_def popularityOrDefault_def languagePopularity_def
      or_default_def Math_round_def en2tr_small_def tr2en_small_def opus_mt_en2tr_base_def)

lemma catalogue_fields:
  "cfg_id en2tr_small = ''en2tr-small''" "cfg_id tr2en_small = ''tr2en-small''"
  "cfg_id opus_mt_en2tr_base = ''opus-mt-en2tr-base''"
  "cfg_size en2tr_small = 25" "cfg_size tr2en_small = 25" "cfg_size opus_mt_en2tr_base = 65"
  by (simp_all add: en2tr_small_def tr2en_small_def opus_mt_en2tr_base_def)

lemmas init_defs = initializeModelConfigs_def startProgressiveDownloading_def MODEL_CONFIGS_def
  initialModelInfo_def modelJsonPath_def catalogue_priorities catalogue_fields

lemma fresh_models:
  "map_of (models (initializeModelConfigs (\<lambda>path. False) 0 (newManager ''/doc''))) ''en2tr-small''
    = Some \<lparr> info_id = ''en2tr-small'', info_name = cfg_name en2tr_small, info_url = cfg_url en2tr_small,
           info_version = cfg_version en2tr_small, localPath = None, isDownloaded = False,
           downloadProgress = None, downloadJobId = None, lastChecked = None, priority = Some 83,
           downloadSize = Some (25 * 1024 * 1024), usageCount = Some 0, lastUsed = None \<rparr>"
  by (simp add: init_defs mgr_defs)

lemma runTransfer_ok:
  "failure t = None \<Longrightarrow> fst (runTransfer mid cfg t now m)
     = Inr (cfg\<lparr> info_id := mid, localPath := Some (modelJsonPath m mid),
                 isDownloaded := True, downloadProgress := Some 1, lastChecked := Some now \<rparr>)"
  by (simp add: runTransfer_def Let_def)

lemma runTransfer_fail:
  "failure t = Some e \<Longrightarrow> fst (runTransfer mid cfg t now m) = Inl (FileSystemError e)"
  by (simp add: runTransfer_def Let_def)

lemma downloaded_models:
  "map_of (models (initializeModelConfigs (\<lambda>path. True) 0 (newManager ''/doc''))) ''en2tr-small''
    = Some \<lparr> info_id = ''en2tr-small'', info_name = cfg_name en2tr_small, info_url = cfg_url en2tr_small,
           info_version = cfg_version en2tr_small,
           localPath = Some ''/doc/ml-models/en2tr-small/model.json'', isDownloaded = True,
           downloadProgress = None, downloadJobId = None, lastChecked = None, priority = Some 83,
           downloadSize = Some (25 * 1024 * 1024), usageCount = Some 0, lastUsed = None \<rparr>"
  by (simp add: init_defs mgr_defs)


text \<open>
  C2. The claim: an urgent \<open>requestModel\<close> whose size would take the storage usage over
  the limit fails with a storage error. The code has no such check on this path. As
  amended: an urgent request for a known model that is not downloaded goes straight to
  \<open>downloadModel\<close>; its outcome is that of the transfer alone, the downloaded entry when
  the transfer succeeds and the transfer's error when it fails, whatever the storage
  usage. The limit is checked for queued downloads only.
\<close>

theorem urgent_request_ignores_storage:
  assumes "map_of (models m) mid = Some model" and "\<not> isDownloaded model"
  shows "fst (requestModel mid True t now m) =
     (case failure t of
        Some e \<Rightarrow> Inl (FileSystemError e)
      | None \<Rightarrow> Inr (model\<lparr> usageCount := Some (or_default (usageCount model) 0 + 1),
                    lastUsed := Some now, info_id := mid,
                    localPath := Some (modelJsonPath m mid), isDownloaded := True,
                    downloadProgress := Some 1, lastChecked := Some now \<rparr>))"
proof -
  let ?u = "model\<lparr> usageCount := Some (or_default (usageCount model) 0 + 1), lastUsed := Some now \<rparr>"
  let ?m1 = "m\<lparr> models := AList.update mid ?u (models m) \<rparr>"
  have r: "requestModel mid True t now m = runTransfer mid ?u t now ?m1"
    using assms
    by (simp add: requestModel_def Let_def downloadModel_def finishDownload_def update_conv')
  have p: "modelJsonPath ?m1 mid = modelJsonPath m mid" by (simp add: modelJsonPath_def)
  show ?thesis
  proof (cases "failure t")
    case None
    then show ?thesis using runTransfer_ok [of t mid ?u now ?m1] r p by simp
  next
    case (Some e)
    then show ?thesis using runTransfer_fail [of t e mid ?u now ?m1] r by simp
  qed
qed

theorem urgent_request_ignores_storage_witness:
  "fst (requestModel ''en2tr-small'' True \<lparr> progressReports = [], failure = Some ''offline'' \<rparr> 1
          (initializeModelConfigs (\<lambda>path. False) 0 (newManager ''/doc''))) = Inl (FileSystemError ''offline'')"
  using urgent_request_ignores_storage [OF fresh_models, of "\<lparr> progressReports = [], failure = Some ''offline'' \<rparr>" 1]
  by simp


text \<open>
  With 600MB in use and a limit of 500MB the storage check would refuse the 25MB package,
  yet the urgent request downloads it.
\<close>

theorem urgent_request_over_quota_counterexample:
  "wouldExceedStorageLimit (Some (600 * 1024 * 1024)) (25 * 1024 * 1024)
      (initializeModelConfigs (\<lambda>path. False) 0 (newManager ''/doc''))
   \<and> (case fst (requestModel ''en2tr-small'' True \<lparr> progressReports = [], failure = None \<rparr> 1
                  (initializeModelConfigs (\<lambda>path. False) 0 (newManager ''/doc''))) of
        Inl e \<Rightarrow> False
      | Inr info \<Rightarrow> isDownloaded info \<and> downloadSize info = Some (25 * 1024 * 1024))"
proof -
  let ?m = "initializeModelConfigs (\<lambda>path. False) 0 (newManager ''/doc'')"
  have o: "progressiveOptions ?m = defaultOptions"
    by (simp add: init_defs mgr_defs)
  have w: "wouldExceedStorageLimit (Some (600 * 1024 * 1024)) (25 * 1024 * 1024) ?m"
    by (simp add: wouldExceedStorageLimit_def maxUsage_def o defaultOptions_def or_default_def
          getCurrentStorageUsage_def)
  have "fst (requestModel ''en2tr-small'' True \<lparr> progressReports = [], failure = None \<rparr> 1 ?m)
      = Inr (the (map_of (models ?m) ''en2tr-small'')\<lparr> usageCount := Some 1, lastUsed := Some 1,
           info_id := ''en2tr-small'', localPath := Some (modelJsonPath ?m ''en2tr-small''),
           isDownloaded := True, downloadProgress := Some 1, lastChecked := Some 1 \<rparr>)"
    by (simp add: requestModel_def Let_def downloadModel_def finishDownload_def update_conv'
          fresh_models runTransfer_def or_default_def modelJsonPath_def)
  then show ?thesis using w by (simp add: fresh_models)
qed


lemma admitLoop_queue: "downloadQueue (admitLoop c m) = downloadQueue m
   \<or> downloadQueue (admitLoop c m) = tl (downloadQueue m)"
  by (simp add: admitLoop_def split: list.splits)




text \<open>
  C5. The claim: the active set never holds more than \<open>maxConcurrentDownloads\<close> models.
  On a fresh installation (no model on disk) the constructor queues the three catalogue
  models; each call of \<open>addToDownloadQueue\<close> starts an invocation of
  \<open>processDownloadQueue\<close> that sees an empty active set, takes its model off the queue
  and suspends at the storage check. When the three checks answer, three downloads are
  active, with a limit of two.
\<close>

theorem fresh_start_three_active:
  "activeDownloads (run (initializeModelConfigs (\<lambda>path. False) 0 (newManager ''/doc''))
      [StorageChecked 0 (Some 0), StorageChecked 0 (Some 0), StorageChecked 0 (Some 0)])
     = [''en2tr-small'', ''tr2en-small'', ''opus-mt-en2tr-base'']
   \<and> or_default (maxConcurrentDownloads (progressiveOptions
        (run (initializeModelConfigs (\<lambda>path. False) 0 (newManager ''/doc''))
      [StorageChecked 0 (Some 0), StorageChecked 0 (Some 0), StorageChecked 0 (Some 0)]))) 2 = 2"
  by (simp add: init_defs mgr_defs)

lemma finishDownload_queue: "downloadQueue (snd (finishDownload mid cap t now m)) = downloadQueue m"
proof -
  have "downloadQueue (foldl (\<lambda>s p. s\<lparr> models := g s p \<rparr>) m ps) = downloadQueue m" for g ps
    by (induction ps arbitrary: m) auto
  then show ?thesis
    by (auto simp: finishDownload_def runTransfer_def Let_def split: option.splits)
qed

lemma step_queue_shrinks:
  "(\<exists>mid prio sz now. e = AddToQueue mid prio sz now) \<or>
   downloadQueue (step m e) = downloadQueue m \<or> downloadQueue (step m e) = tl (downloadQueue m)"
proof (cases e)
  case (AddToQueue a b c d) then show ?thesis by simp
next
  case (StorageChecked k stat)
  then show ?thesis
    using admitLoop_queue [of _ "m\<lparr> suspendedChecks := remove_nth k (suspendedChecks m) \<rparr>"]
          admitLoop_queue [of _ "downloadModelProgressively (modelId (nextItem (suspendedChecks m ! k))) (m\<lparr> suspendedChecks := remove_nth k (suspendedChecks m) \<rparr>)"]
    by (auto simp: resumeStorageCheck_def Let_def downloadModelProgressively_def)
next
  case (TransferSettled k t now)
  show ?thesis
  proof (cases "k < length (transfers m)")
    case False then show ?thesis using TransferSettled by (simp add: settleTransfer_def)
  next
    case True
    obtain mid cap where mc: "transfers m ! k = (mid, cap)" by (cases "transfers m ! k")
    let ?m2 = "snd (finishDownload mid cap t now (m\<lparr> transfers := remove_nth k (transfers m) \<rparr>))"
    have "downloadQueue ?m2 = downloadQueue m" by (simp add: finishDownload_queue)
    then show ?thesis using TransferSettled True mc
        admitLoop_queue [of _ "?m2\<lparr> activeDownloads := removeAll mid (activeDownloads ?m2) \<rparr>"]
      by (auto simp: settleTransfer_def Let_def processDownloadQueue_def)
  qed
qed

lemma queue_fifo_tl: "queue_fifo q entries \<Longrightarrow> queue_fifo (tl q) entries"
proof (cases q)
  case Nil
  then show "queue_fifo q entries \<Longrightarrow> queue_fifo (tl q) entries" by simp
next
  case (Cons a r)
  assume fifo: "queue_fifo q entries"
  have s: "sorted_wrt (\<lambda>a b. q_priority a \<ge> q_priority b) r"
    using fifo Cons by (simp add: queue_fifo_def)
  have "suffix (filter (\<lambda>item. q_priority item = p) r) (filter (\<lambda>item. q_priority item = p) entries)" for p
  proof -
    have "suffix (filter (\<lambda>item. q_priority item = p) r) (filter (\<lambda>item. q_priority item = p) q)"
      using Cons by (simp add: suffix_ConsI)
    moreover have "suffix (filter (\<lambda>item. q_priority item = p) q) (filter (\<lambda>item. q_priority item = p) entries)"
      using fifo by (simp add: queue_fifo_def)
    ultimately show ?thesis by (rule suffix_order.trans)
  qed
  then show "queue_fifo (tl q) entries" using s Cons by (simp add: queue_fifo_def)
qed

lemma queue_fifo_push:
  assumes "queue_fifo q entries"
  shows "queue_fifo (sort_key (\<lambda>item. - q_priority item) (q @ [x])) (entries @ [x])"
proof -
  let ?s = "sort_key (\<lambda>item. - q_priority item) (q @ [x])"
  have "sorted (map (\<lambda>item. - q_priority item) ?s)" by (rule sorted_sort_key)
  then have 1: "sorted_wrt (\<lambda>a b. q_priority a \<ge> q_priority b) ?s"
    by (simp add: sorted_map)
  have 2: "suffix (filter (\<lambda>item. q_priority item = p) ?s) (filter (\<lambda>item. q_priority item = p) (entries @ [x]))" for p
  proof -
    have "filter (\<lambda>item. - q_priority item = - p) ?s = filter (\<lambda>item. - q_priority item = - p) (q @ [x])"
      by (rule sort_key_stable)
    then have "filter (\<lambda>item. q_priority item = p) ?s
        = filter (\<lambda>item. q_priority item = p) q @ filter (\<lambda>item. q_priority item = p) [x]"
      by simp
    moreover have "suffix (filter (\<lambda>item. q_priority item = p) q) (filter (\<lambda>item. q_priority item = p) entries)"
      using assms by (simp add: queue_fifo_def)
    ultimately show ?thesis by (auto simp: suffix_def)
  qed
  show ?thesis using 1 2 by (simp add: queue_fifo_def)
qed

lemma step_fifo:
  assumes "queue_fifo (downloadQueue m) entries"
  shows "queue_fifo (downloadQueue (step m e)) (entries @ pushed m e)"
proof (cases "\<exists>mid prio sz now. e = AddToQueue mid prio sz now")
  case True
  then obtain mid prio sz now where e: "e = AddToQueue mid prio sz now" by blast
  show ?thesis
  proof (cases "list_ex (\<lambda>item. modelId item = mid) (downloadQueue m) \<or> mid \<in> set (activeDownloads m)")
    case True
    then show ?thesis using assms e by (simp add: addToDownloadQueue_def)
  next
    case False
    let ?x = "\<lparr> modelId = mid, q_priority = prio, estimatedSize = sz, addedAt = now \<rparr>"
    let ?q = "sort_key (\<lambda>item. - q_priority item) (downloadQueue m @ [?x])"
    let ?m = "m\<lparr> downloadQueue := ?q \<rparr>"
    have f: "queue_fifo ?q (entries @ [?x])" using assms by (rule queue_fifo_push)
    have res: "step m e = processDownloadQueue ?m"
      using False e by (simp add: addToDownloadQueue_def Let_def)
    have p: "pushed m e = [?x]" using False e by simp
    have "downloadQueue (processDownloadQueue ?m) = ?q \<or> downloadQueue (processDownloadQueue ?m) = tl ?q"
      using admitLoop_queue [of _ ?m] by (simp add: processDownloadQueue_def)
    then show ?thesis using f queue_fifo_tl [OF f] res p by auto
  qed
next
  case False
  then have p: "pushed m e = []" by (cases e) auto
  have "downloadQueue (step m e) = downloadQueue m \<or> downloadQueue (step m e) = tl (downloadQueue m)"
    using step_queue_shrinks [of e m] False by blast
  then show ?thesis using assms queue_fifo_tl [OF assms] p by auto
qed

lemma run_fifo:
  "queue_fifo (downloadQueue m) entries
   \<Longrightarrow> queue_fifo (downloadQueue (foldl step m es)) (entries @ enqueued m es)"
proof (induction es arbitrary: m entries)
  case Nil
  then show ?case by simp
next
  case (Cons e es)
  have "queue_fifo (downloadQueue (step m e)) (entries @ pushed m e)"
    using Cons.prems by (rule step_fifo)
  from Cons.IH [OF this] show ?case by simp
qed

text \<open>
  C6. From an empty queue, after any sequence of scheduler events, whatever the clock
  reads, the queue is in order of priority, highest first, and the entries of equal
  priority stand in the order in which they were enqueued.
\<close>

theorem queue_sorted_fifo:
  assumes "downloadQueue m = []"
  shows "queue_fifo (downloadQueue (run m events)) (enqueued m events)"
  unfolding run_def using run_fifo [of m "[]" events] assms by (simp add: queue_fifo_def)

theorem queue_sorted_fifo_witness:
  "queue_fifo
     (downloadQueue (run ((newManager ''/doc'')\<lparr> activeDownloads := [''x'', ''y''] \<rparr>)
        [AddToQueue ''a'' 5 10 0, AddToQueue ''b'' 7 10 0, AddToQueue ''c'' 5 10 0, AddToQueue ''d'' 7 10 0]))
     (enqueued ((newManager ''/doc'')\<lparr> activeDownloads := [''x'', ''y''] \<rparr>)
        [AddToQueue ''a'' 5 10 0, AddToQueue ''b'' 7 10 0, AddToQueue ''c'' 5 10 0, AddToQueue ''d'' 7 10 0])
   \<and> map modelId (downloadQueue (run ((newManager ''/doc'')\<lparr> activeDownloads := [''x'', ''y''] \<rparr>)
        [AddToQueue ''a'' 5 10 0, AddToQueue ''b'' 7 10 0, AddToQueue ''c'' 5 10 0, AddToQueue ''d'' 7 10 0]))
      = [''b'', ''d'', ''a'', ''c'']
   \<and> map modelId (enqueued ((newManager ''/doc'')\<lparr> activeDownloads := [''x'', ''y''] \<rparr>)
        [AddToQueue ''a'' 5 10 0, AddToQueue ''b'' 7 10 0, AddToQueue ''c'' 5 10 0, AddToQueue ''d'' 7 10 0])
      = [''a'', ''b'', ''c'', ''d'']"
proof -
  let ?m = "(newManager ''/doc'')\<lparr> activeDownloads := [''x'', ''y''] \<rparr>"
  let ?es = "[AddToQueue ''a'' 5 10 0, AddToQueue ''b'' 7 10 0, AddToQueue ''c'' 5 10 0, AddToQueue ''d'' 7 10 0]"
  have e: "downloadQueue ?m = []" by (simp add: newManager_def)
  have q: "map modelId (downloadQueue (run ?m ?es)) = [''b'', ''d'', ''a'', ''c'']"
    by (simp add: mgr_defs)
  have l: "map modelId (enqueued ?m ?es) = [''a'', ''b'', ''c'', ''d'']"
    by (simp add: mgr_defs)
  show ?thesis using queue_sorted_fifo [OF e, of ?es] q l by simp
qed

text \<open>
  C10. \<open>deleteModel\<close> leaves the manager as it was when removing the directory throws,
  and passes the error on; for a model that is unknown or not downloaded it returns
  without changing anything.
\<close>

theorem deleteModel_atomic:
  "(unlinkError = Some e \<longrightarrow>
       snd (deleteModel mid unlinkError m) = m
     \<and> (map_of (models m) mid = Some info \<and> isDownloaded info \<and> localPath info = Some p \<and> p \<noteq> []
          \<longrightarrow> fst (deleteModel mid unlinkError m) = Inl (FileSystemError e)))
   \<and> (map_of (models m) mid = None \<or> (map_of (models m) mid = Some info \<and> \<not> isDownloaded info)
        \<longrightarrow> deleteModel mid unlinkError m = (Inr (), m))"
  by (auto simp: deleteModel_def Let_def split: option.splits)

theorem deleteModel_atomic_witness:
  "deleteModel ''en2tr-small'' (Some ''EBUSY'') (initializeModelConfigs (\<lambda>path. True) 0 (newManager ''/doc''))
     = (Inl (FileSystemError ''EBUSY''), initializeModelConfigs (\<lambda>path. True) 0 (newManager ''/doc''))
   \<and> deleteModel ''en2tr-small'' None (initializeModelConfigs (\<lambda>path. False) 0 (newManager ''/doc''))
     = (Inr (), initializeModelConfigs (\<lambda>path. False) 0 (newManager ''/doc''))
   \<and> deleteModel ''no-such-model'' None (newManager ''/doc'') = (Inr (), newManager ''/doc'')"
proof -
  let ?d = "initializeModelConfigs (\<lambda>path. True) 0 (newManager ''/doc'')"
  let ?f = "initializeModelConfigs (\<lambda>path. False) 0 (newManager ''/doc'')"
  have 1: "deleteModel ''en2tr-small'' (Some ''EBUSY'') ?d = (Inl (FileSystemError ''EBUSY''), ?d)"
    using deleteModel_atomic [of "Some ''EBUSY''" "''EBUSY''" "''en2tr-small''" ?d
            "the (map_of (models ?d) ''en2tr-small'')" "''/doc/ml-models/en2tr-small/model.json''"]
    by (simp add: prod_eq_iff downloaded_models)
  have 2: "deleteModel ''en2tr-small'' None ?f = (Inr (), ?f)"
    using deleteModel_atomic [of None _ "''en2tr-small''" ?f "the (map_of (models ?f) ''en2tr-small'')"]
    by (simp add: fresh_models)
  have 3: "deleteModel ''no-such-model'' None (newManager ''/doc'') = (Inr (), newManager ''/doc'')"
    using deleteModel_atomic [of None _ "''no-such-model''" "newManager ''/doc''"]
    by (simp add: newManager_def)
  show ?thesis using 1 2 3 by simp
qed

subsection \<open>Language detection\<close>

text \<open>
  C9. For a text whose trimmed length is below 10, the empty text included,
  \<open>detectLanguage\<close> returns the default result: the English entry of the language list,
  confidence 0.3 and no alternatives, whatever the two detectors would answer.
\<close>

theorem detectLanguage_short_text:
  assumes "length (trim text) < 10" and "find (\<lambda>lang. code lang = ''en'') LANGS = Some lang_en"
  shows "detectLanguage LANGS francD langdetectD text
     = \<lparr> detectedLanguage = Some lang_en, det_confidence = 3 / 10, alternativeLanguages = [] \<rparr>"
  using assms
  by (simp add: detectLanguage_def minTextLength_def createDefaultResult_def englishOrFirst_def
        findLanguage_def)

theorem detectLanguage_short_text_witness:
  "detectLanguage [turkish, english]
     (\<lambda>t. Inr ''tur'') (\<lambda>t. (Inr (Some [(''tr'', 1)]) :: error + (string \<times> real) list option)) ''short''
   = \<lparr> detectedLanguage = Some english, det_confidence = 3 / 10, alternativeLanguages = [] \<rparr>"
proof -
  have l: "length (trim ''short'') < 10" by (simp add: trim_def isWhiteSpace_def)
  have f: "find (\<lambda>lang. code lang = ''en'') [turkish, english] = Some english"
    by (simp add: turkish_def english_def)
  show ?thesis
    by (rule detectLanguage_short_text [OF l f])
qed

subsection \<open>Confidence scoring\<close>

lemma softmax_single: "softmax [x] = [1]"
  by (simp add: softmax_def)

text \<open>
  C3. The claim: every confidence returned is a number between 0 and 1, also for a model
  output of length one. For a single prediction the distribution is \<open>[1]\<close>, its entropy
  and the greatest possible entropy \<open>ln 1\<close> are both zero, their quotient is \<open>NaN\<close>, and
  \<open>NaN\<close> passes through the final \<open>Math.max(0, Math.min(1, ...))\<close>.
\<close>

theorem confidence_of_single_prediction_is_NaN:
  "calculateTranslationConfidence [x] = NaN"
  by (simp add: calculateTranslationConfidence_def softmax_single js_div_def js_sub_def
        Math_min_def Math_max_def)

text \<open>For every other length the score is a number between 0 and 1.\<close>

lemma confidence_in_range_otherwise:
  assumes "length predictions \<noteq> 1"
  shows "\<exists>c. calculateTranslationConfidence predictions = Fin c \<and> 0 \<le> c \<and> c \<le> 1"
proof (cases "predictions = []")
  case True
  then show ?thesis by (simp add: calculateTranslationConfidence_def)
next
  case False
  then have "length predictions \<ge> 2" using assms by (cases predictions) (auto simp: Suc_le_eq)
  then have "length (softmax predictions) \<ge> 2" by (simp add: softmax_def Let_def)
  then have "1 < real (length (softmax predictions))" by simp
  then have "ln (real (length (softmax predictions))) \<noteq> 0" using ln_gt_zero by fastforce
  then show ?thesis using False
    by (simp add: calculateTranslationConfidence_def Let_def js_div_def js_sub_def
        Math_min_def Math_max_def)
qed

subsection \<open>The translation service\<close>

lemma catalogue_id_nonempty: "getModelIdForLanguagePair a b = Some mid \<Longrightarrow> mid \<noteq> []"
  by (auto simp: getModelIdForLanguagePair_def MODEL_CONFIGS_def en2tr_small_def tr2en_small_def
        opus_mt_en2tr_base_def split: if_splits)

lemma initialize_logs:
  "historyCalls (initialize ms s) = historyCalls s" "downloadCalls (initialize ms s) = downloadCalls s"
proof -
  have "historyCalls (foldl (\<lambda>s' model. s'\<lparr> modelStatus := g s' model \<rparr>) s ms) = historyCalls s
      \<and> downloadCalls (foldl (\<lambda>s' model. s'\<lparr> modelStatus := g s' model \<rparr>) s ms) = downloadCalls s" for g
    by (induction ms arbitrary: s) auto
  then show "historyCalls (initialize ms s) = historyCalls s"
    "downloadCalls (initialize ms s) = downloadCalls s"
    by (simp_all add: initialize_def)
qed

lemma ensureInitialized_logs:
  "historyCalls (ensureInitialized env s) = historyCalls s"
  "downloadCalls (ensureInitialized env s) = downloadCalls s"
  by (simp_all add: ensureInitialized_def initialize_logs)

lemma mockTranslate_fields:
  "tr_modelId (mockTranslate text src tgt) = ''mock''"
  "confidence (mockTranslate text src tgt) = Some (Fin (1 / 10))"
  "timeTaken (mockTranslate text src tgt) = Some 10"
  "alternatives (mockTranslate text src tgt) = Some []"
  by (simp_all add: mockTranslate_def Let_def)

lemma mockTranslate_hello:
  "trim (toLowerCase text) = ''hello'' \<Longrightarrow> code tgt = ''tr''
   \<Longrightarrow> translatedText (mockTranslate text src tgt) = ''merhaba''"
  by (simp add: mockTranslate_def Let_def mockTranslations_def)

lemma trim_hello: "trim ''hello'' = ''hello''"
  by (simp add: trim_def isWhiteSpace_def)

lemma lower_hello: "toLowerCase ''hello'' = ''hello''"
  by (simp add: toLowerCase_def lowerChar_def)

lemma resolve_hello:
  "resolveSource example_collaborators ''hello'' None = Inr (english, Some (3 / 10))"
  by (simp add: resolveSource_def example_collaborators_def detectLanguage_def trim_hello
        minTextLength_def createDefaultResult_def englishOrFirst_def findLanguage_def
        english_def turkish_def)

lemma model_en_tr: "getModelIdForLanguagePair (code english) (code turkish) = Some ''en2tr-small''"
  by (simp add: getModelIdForLanguagePair_def MODEL_CONFIGS_def en2tr_small_def english_def turkish_def)

lemma service_without_models_status:
  "\<not> modelIsDownloaded (ensureInitialized example_collaborators service_without_models) mid"
  "\<not> modelIsDownloading (ensureInitialized example_collaborators service_without_models) mid"
  by (simp_all add: modelIsDownloaded_def modelIsDownloading_def ensureInitialized_def
        service_without_models_def)

lemma service_with_en2tr_status:
  "modelIsDownloaded (ensureInitialized example_collaborators service_with_en2tr) ''en2tr-small''"
  by (simp add: modelIsDownloaded_def ensureInitialized_def service_with_en2tr_def)


text \<open>
  C1. The claim: when the catalogue has a model for the pair and it is not downloaded,
  the result of \<open>translate\<close> has \<open>modelId = "mock_model_unavailable"\<close>. As amended: when
  the source language is given or detected, the catalogue has a model for the pair and
  that model is not downloaded, \<open>translate\<close> returns the result of \<open>mockTranslate\<close>,
  whose \<open>modelId\<close> is \<open>"mock"\<close> and whose confidence is 0.1, with \<open>"merhaba"\<close> for
  \<open>"hello"\<close> into Turkish; the tag \<open>"mock_model_unavailable"\<close> goes into the history
  record only; and a download of the model is started unless \<open>useOfflineOnly\<close> is set or
  the model is already marked as downloading.
\<close>

theorem translate_model_unavailable:
  assumes "resolveSource env text sourceInput = Inr (src, dc)"
      and "getModelIdForLanguagePair (code src) (code tgt) = Some mid"
      and "\<not> modelIsDownloaded (ensureInitialized env s) mid"
  shows "fst (translate env text sourceInput tgt options s) = Inr (mockTranslate text src tgt)
     \<and> tr_modelId (mockTranslate text src tgt) = ''mock''
     \<and> confidence (mockTranslate text src tgt) = Some (Fin (1 / 10))
     \<and> (if trim (toLowerCase text) = ''hello'' \<and> code tgt = ''tr''
         then translatedText (mockTranslate text src tgt) = ''merhaba'' else True)
     \<and> historyCalls (snd (translate env text sourceInput tgt options s)) = historyCalls s @
          [\<lparr> h_originalText = text, h_translatedText = translatedText (mockTranslate text src tgt),
             h_sourceLanguage = src, h_targetLanguage = tgt, h_modelId = ''mock_model_unavailable'',
             h_translationConfidence = Some (Fin (1 / 10)), h_detectionConfidence = dc \<rparr>]
     \<and> downloadCalls (snd (translate env text sourceInput tgt options s)) = downloadCalls s @
          (if \<not> modelIsDownloading (ensureInitialized env s) mid \<and> useOfflineOnly options \<noteq> Some True
           then [mid] else [])"
proof -
  let ?s0 = "ensureInitialized env s"
  let ?mock = "mockTranslate text src tgt"
  let ?s1 = "if \<not> modelIsDownloading ?s0 mid \<and> useOfflineOnly options \<noteq> Some True
             then beginDownloadModel (code src) (code tgt) ?s0 else ?s0"
  have ne: "mid \<noteq> []" using assms(2) by (rule catalogue_id_nonempty)
  have t: "translate env text sourceInput tgt options s =
      (Inr ?mock, addTranslation text ?mock src tgt ''mock_model_unavailable'' dc ?s1)"
    using assms ne by (simp add: translate_def translateResolved_def Let_def)
  have b: "downloadCalls (beginDownloadModel (code src) (code tgt) ?s0) = downloadCalls s @ [mid]"
      "historyCalls (beginDownloadModel (code src) (code tgt) ?s0) = historyCalls s"
    using assms(2) ne by (simp_all add: beginDownloadModel_def ensureInitialized_logs)
  have h: "historyCalls ?s1 = historyCalls s" using b by (simp add: ensureInitialized_logs)
  have d: "downloadCalls ?s1 = downloadCalls s @
      (if \<not> modelIsDownloading ?s0 mid \<and> useOfflineOnly options \<noteq> Some True then [mid] else [])"
    using b by (simp add: ensureInitialized_logs)
  show ?thesis
    unfolding t using h d
    by (simp add: addTranslation_def mockTranslate_fields mockTranslate_hello)
qed

theorem translate_model_unavailable_witness:
  "fst (translate example_collaborators ''hello'' None turkish no_options service_without_models)
     = Inr \<lparr> translatedText = ''merhaba'', confidence = Some (Fin (1 / 10)), alternatives = Some [],
             timeTaken = Some 10, tr_modelId = ''mock'' \<rparr>
   \<and> map h_modelId (historyCalls (snd (translate example_collaborators ''hello'' None turkish no_options
        service_without_models))) = [''mock_model_unavailable'']
   \<and> downloadCalls (snd (translate example_collaborators ''hello'' None turkish no_options
        service_without_models)) = [''en2tr-small'']"
proof -
  have m: "mockTranslate ''hello'' english turkish
      = \<lparr> translatedText = ''merhaba'', confidence = Some (Fin (1 / 10)), alternatives = Some [],
             timeTaken = Some 10, tr_modelId = ''mock'' \<rparr>"
    by (simp add: mockTranslate_def Let_def mockTranslations_def trim_hello lower_hello turkish_def)
  have l: "historyCalls service_without_models = []" "downloadCalls service_without_models = []"
      "useOfflineOnly no_options = None"
    by (simp_all add: service_without_models_def no_options_def)
  show ?thesis
    using translate_model_unavailable [OF resolve_hello model_en_tr service_without_models_status(1),
        where options = no_options]
    by (simp add: m l service_without_models_status)
qed


text \<open>
  \<open>translate("hello", null, tr)\<close> with the English-to-Turkish model in the catalogue and
  not downloaded: the result carries \<open>"mock"\<close>, not \<open>"mock_model_unavailable"\<close>.
\<close>

theorem translate_model_unavailable_counterexample:
  "tr_modelId (projr (fst (translate example_collaborators ''hello'' None turkish no_options
        service_without_models))) = ''mock''
   \<and> tr_modelId (projr (fst (translate example_collaborators ''hello'' None turkish no_options
        service_without_models))) \<noteq> ''mock_model_unavailable''
   \<and> \<not> isl (fst (translate example_collaborators ''hello'' None turkish no_options
        service_without_models))
   \<and> getModelIdForLanguagePair ''en'' ''tr'' = Some ''en2tr-small''
   \<and> \<not> modelIsDownloaded service_without_models ''en2tr-small''"
proof -
  have ne: "''en2tr-small'' \<noteq> []" by simp
  have "fst (translate example_collaborators ''hello'' None turkish no_options service_without_models)
      = Inr (mockTranslate ''hello'' english turkish)"
    using resolve_hello model_en_tr service_without_models_status
    by (simp add: translate_def translateResolved_def Let_def)
  moreover have "getModelIdForLanguagePair ''en'' ''tr'' = Some ''en2tr-small''"
    using model_en_tr by (simp add: english_def turkish_def)
  moreover have "\<not> modelIsDownloaded service_without_models ''en2tr-small''"
    by (simp add: modelIsDownloaded_def service_without_models_def)
  ultimately show ?thesis by (simp add: mockTranslate_fields)
qed


text \<open>
  C8. Once the source language is given or detected, \<open>translate\<close> never ends in an
  error; when the model is downloaded and \<open>mlService.translateText\<close> throws (model load,
  tokenisation, inference or a download inside it), \<open>translate\<close> returns the mock result
  and records it in the history.
\<close>

theorem translate_never_propagates:
  assumes "resolveSource env text sourceInput = Inr (src, dc)"
  shows "\<not> isl (fst (translate env text sourceInput tgt options s))
     \<and> (if getModelIdForLanguagePair (code src) (code tgt) = Some mid
           \<and> modelIsDownloaded (ensureInitialized env s) mid
           \<and> translateText env text (code src) (code tgt) mid = Inl e
         then translate env text sourceInput tgt options s =
               (Inr (mockTranslate text src tgt),
                addTranslation text (mockTranslate text src tgt) src tgt ''mock'' dc
                  (ensureInitialized env s))
         else True)"
proof -
  have t: "translate env text sourceInput tgt options s =
      translateResolved env text src dc tgt options (ensureInitialized env s)"
    using assms by (simp add: translate_def Let_def)
  have a: "\<not> isl (fst (translateResolved env text src dc tgt options s'))" for s'
    by (simp add: translateResolved_def Let_def fallbackToMock_def split: option.splits sum.splits)
  have b: "translateResolved env text src dc tgt options s' =
      (Inr (mockTranslate text src tgt),
       addTranslation text (mockTranslate text src tgt) src tgt ''mock'' dc s')"
    if "getModelIdForLanguagePair (code src) (code tgt) = Some mid"
      "modelIsDownloaded s' mid" "translateText env text (code src) (code tgt) mid = Inl e" for s'
    using that catalogue_id_nonempty [OF that(1)]
    by (simp add: translateResolved_def Let_def fallbackToMock_def mockTranslate_fields)
  show ?thesis unfolding t using a b by simp
qed

theorem translate_never_propagates_witness:
  "translate example_collaborators ''good morning'' (Some english) turkish no_options service_with_en2tr
     = (Inr \<lparr> translatedText = ''[Turkish] good morning'', confidence = Some (Fin (1 / 10)),
               alternatives = Some [], timeTaken = Some 10, tr_modelId = ''mock'' \<rparr>,
        service_with_en2tr\<lparr> historyCalls :=
          [\<lparr> h_originalText = ''good morning'', h_translatedText = ''[Turkish] good morning'',
             h_sourceLanguage = english, h_targetLanguage = turkish, h_modelId = ''mock'',
             h_translationConfidence = Some (Fin (1 / 10)), h_detectionConfidence = None \<rparr>] \<rparr>)"
proof -
  have r: "resolveSource example_collaborators ''good morning'' (Some english) = Inr (english, None)"
    by (simp add: resolveSource_def)
  have f: "translateText example_collaborators ''good morning'' (code english) (code turkish) ''en2tr-small''
      = Inl (InferenceError ''Failed to load model'')"
    by (simp add: example_collaborators_def)
  have lw: "trim (toLowerCase ''good morning'') = ''good morning''"
    by (simp add: trim_def isWhiteSpace_def toLowerCase_def lowerChar_def)
  have m: "mockTranslate ''good morning'' english turkish
      = \<lparr> translatedText = ''[Turkish] good morning'', confidence = Some (Fin (1 / 10)),
               alternatives = Some [], timeTaken = Some 10, tr_modelId = ''mock'' \<rparr>"
    by (simp add: mockTranslate_def Let_def mockTranslations_def lw turkish_def)
  have i: "ensureInitialized example_collaborators service_with_en2tr = service_with_en2tr"
    by (simp add: ensureInitialized_def service_with_en2tr_def)
  have h: "historyCalls service_with_en2tr = []" by (simp add: service_with_en2tr_def)
  show ?thesis
    using translate_never_propagates [OF r, of turkish no_options service_with_en2tr "''en2tr-small''"
        "InferenceError ''Failed to load model''"]
      model_en_tr service_with_en2tr_status f
    by (simp add: m i h addTranslation_def)
qed

end
